theory Spec2Isabelle
  imports Main "HOL-Library.Word"
begin

section \<open>BARK: a shallow embedding of the kernel-bark sources\<close>

text \<open>
  The theory embeds \<^verbatim>\<open>include/bark.h\<close>, \<^verbatim>\<open>src/bark_entropy.c\<close>,
  \<^verbatim>\<open>src/bark_signature.c\<close>, \<^verbatim>\<open>src/bark_hooks.c\<close> and \<^verbatim>\<open>src/bark_main.c\<close>.

  Conventions.
  \<^item> \<^verbatim>\<open>long\<close>, \<^verbatim>\<open>unsigned long\<close> and \<^verbatim>\<open>atomic64_t\<close> are 64-bit words (LP64 kernel);
    \<^verbatim>\<open>atomic_long_t\<close> holds a signed \<^verbatim>\<open>long\<close>, so tests on it use the signed order
    \<open><s\<close>, while \<^verbatim>\<open>unsigned long\<close> values are compared with the unsigned order \<open><\<close>.
    Atomic additions wrap around.
  \<^item> C \<^verbatim>\<open>int\<close> return codes and the \<^verbatim>\<open>int\<close> module parameters are HOL integers; they are
    only compared with constants.
  \<^item> A pointer that may be \<^verbatim>\<open>NULL\<close> is an \<open>option\<close>.
  \<^item> Global variables are the fields of one record, passed in and returned.
    Each function is one atomic step: interleavings of concurrent callers are not modelled.
  \<^item> \<^verbatim>\<open>printk\<close> appends a message to the field \<open>klog\<close>; the wall-clock time stamp of
    \<^verbatim>\<open>bark_log_violation\<close> is left out of the message.
\<close>

subsection \<open>Error numbers (linux/errno-base.h) and the codes of bark.h\<close>

abbreviation (input) EPERM :: int where "EPERM \<equiv> 1"
abbreviation (input) ENOENT :: int where "ENOENT \<equiv> 2"
abbreviation (input) EACCES :: int where "EACCES \<equiv> 13"
abbreviation (input) EINVAL :: int where "EINVAL \<equiv> 22"

abbreviation (input) BARK_ERR_ENTROPY_EXCEEDED :: int where "BARK_ERR_ENTROPY_EXCEEDED \<equiv> - EPERM"
abbreviation (input) BARK_ERR_SIGNATURE_INVALID :: int where "BARK_ERR_SIGNATURE_INVALID \<equiv> - EACCES"
abbreviation (input) BARK_ERR_NOT_AUTHORIZED :: int where "BARK_ERR_NOT_AUTHORIZED \<equiv> - EACCES"

abbreviation (input) BARK_DEFAULT_MAX_ENTROPY :: "64 word" where "BARK_DEFAULT_MAX_ENTROPY \<equiv> 1000"
abbreviation (input) BARK_DEFAULT_ENFORCE :: int where "BARK_DEFAULT_ENFORCE \<equiv> 1"

subsection \<open>Data (bark.h)\<close>

datatype bark_sig_state =
  BARK_SIG_UNKNOWN | BARK_SIG_VALID | BARK_SIG_INVALID | BARK_SIG_MISSING

record bark_auth_result =
  ar_sig_state :: bark_sig_state
  entropy_level :: "64 word"
  authorized :: bool
  reason :: "string option"

record bark_task_security =
  ts_sig_state :: bark_sig_state
  authorization_time :: "64 word"
  authorization_count :: "32 word"
  is_substrate_process :: bool

record bark_file_security =
  fs_sig_state :: bark_sig_state
  signature_hash :: string

text \<open>
  The host kernel's objects, as far as the sources touch them. A \<^verbatim>\<open>struct file\<close> carries
  the content and the signature attribute a verifier would read; a task carries its pid,
  its name and what \<^verbatim>\<open>get_task_exe_file\<close> finds.
\<close>

record struct_file =
  f_content :: "8 word list"
  f_signature :: "string option"

record task_struct =
  pid :: int
  comm :: string
  exe_file :: "struct_file option"

record linux_binprm =
  bprm_file :: "struct_file option"
  filename :: string

datatype bark_msg =
    MsgNoExe int
  | MsgEntropyLimit
  | MsgEntropyExceeded "64 word" "64 word"
  | MsgUnauthorized string
  | MsgViolation "(int \<times> string) option" string
  | MsgAuthorized int string "64 word"
  | MsgSigFailed string
  | MsgCredBlocked

text \<open>
  The module's globals (\<^verbatim>\<open>bark_main.c\<close>, \<^verbatim>\<open>bark_entropy.c\<close>), the memory holding the
  security blobs (addressed by natural numbers), the log, and one ghost field:
  \<open>verify_runs\<close> counts how often \<^verbatim>\<open>bark_verify_signature\<close> got past its cache test and
  ran the verification proper.
\<close>

record bark_state =
  bark_enforce :: int
  bark_max_entropy :: "64 word"
  bark_verbose :: int
  current_entropy :: "64 word"
  authorizations :: "64 word"
  denials :: "64 word"
  entropy_blocks :: "64 word"
  signature_failures :: "64 word"
  task_blobs :: "nat \<Rightarrow> bark_task_security"
  file_blobs :: "nat \<Rightarrow> bark_file_security"
  klog :: "bark_msg list"
  verify_runs :: nat

definition zero_task_security :: bark_task_security where
  "zero_task_security =
     \<lparr>ts_sig_state = BARK_SIG_UNKNOWN, authorization_time = 0,
      authorization_count = 0, is_substrate_process = False\<rparr>"

definition zero_file_security :: bark_file_security where
  "zero_file_security = \<lparr>fs_sig_state = BARK_SIG_UNKNOWN, signature_hash = []\<rparr>"

definition zero_auth_result :: bark_auth_result where
  "zero_auth_result =
     \<lparr>ar_sig_state = BARK_SIG_UNKNOWN, entropy_level = 0, authorized = False, reason = None\<rparr>"

text \<open>The initialisers of the globals.\<close>

definition bark_initial :: bark_state where
  "bark_initial =
     \<lparr>bark_enforce = BARK_DEFAULT_ENFORCE, bark_max_entropy = BARK_DEFAULT_MAX_ENTROPY,
      bark_verbose = 0, current_entropy = 0,
      authorizations = 0, denials = 0, entropy_blocks = 0, signature_failures = 0,
      task_blobs = (\<lambda>_. zero_task_security), file_blobs = (\<lambda>_. zero_file_security),
      klog = [], verify_runs = 0\<rparr>"

definition printk :: "bark_msg \<Rightarrow> bark_state \<Rightarrow> bark_state" where
  "printk m k = k\<lparr>klog := klog k @ [m]\<rparr>"

subsection \<open>The blob accessors (bark.h, lines 96-106)\<close>

text \<open>
  Both accessors of the source return \<^verbatim>\<open>NULL\<close> for every argument. The functions below
  take the two accessors as parameters \<open>bt\<close> and \<open>bf\<close> (a subject to the address of its
  blob, or \<open>None\<close>), so that the branches working on a blob can be stated and proved; the
  program as it is written is the instance \<open>bt = bark_task\<close>, \<open>bf = bark_file\<close>.
\<close>

type_synonym task_accessor = "task_struct \<Rightarrow> nat option"
type_synonym file_accessor = "struct_file \<Rightarrow> nat option"

definition bark_task :: task_accessor where
  "bark_task task = None"

definition bark_file :: file_accessor where
  "bark_file filp = None"

subsection \<open>Entropy monitoring (bark\_entropy.c)\<close>

definition bark_get_entropy_level :: "bark_state \<Rightarrow> 64 word" where
  "bark_get_entropy_level k = current_entropy k"

definition bark_check_entropy_ceiling :: "bark_state \<Rightarrow> int \<times> bark_state" where
  "bark_check_entropy_ceiling k =
     (let level = bark_get_entropy_level k in
      if level > bark_max_entropy k
      then (- EPERM, k\<lparr>entropy_blocks := entropy_blocks k + 1\<rparr>)
      else (0, k))"

definition bark_update_entropy :: "64 word \<Rightarrow> bark_state \<Rightarrow> bark_state" where
  "bark_update_entropy delta k =
     (let k1 = k\<lparr>current_entropy := current_entropy k + delta\<rparr> in
      if 0 <s current_entropy k1
      then k1\<lparr>current_entropy := current_entropy k1 - 1\<rparr>
      else k1)"

definition bark_reset_entropy :: "bark_state \<Rightarrow> bark_state" where
  "bark_reset_entropy k = k\<lparr>current_entropy := 0\<rparr>"

definition bark_entropy_event :: "int \<Rightarrow> bark_state \<Rightarrow> bark_state" where
  "bark_entropy_event event_type k =
     (let delta = (if event_type = 0 then 10
                   else if event_type = 1 then 5
                   else if event_type = 2 then 3
                   else if event_type = 3 then 1
                   else 1)
      in bark_update_entropy delta k)"

subsection \<open>Signature verification (bark\_signature.c)\<close>

text \<open>
  \<^verbatim>\<open>bark_verify_signature(file, state)\<close>. The argument \<open>state\<close> tells whether the out
  pointer is non-null; the second component of the result is the value stored through it
  (\<open>None\<close>: nothing was stored).
\<close>

definition bark_verify_signature ::
  "file_accessor \<Rightarrow> bark_state \<Rightarrow> struct_file option \<Rightarrow> bool
     \<Rightarrow> int \<times> bark_sig_state option \<times> bark_state" where
  "bark_verify_signature bf k filp state =
     (case filp of
        None \<Rightarrow> (- EINVAL, None, k)
      | Some f \<Rightarrow>
          if \<not> state then (- EINVAL, None, k)
          else
            let fsec = bf f in
            if fsec \<noteq> None \<and> fs_sig_state (file_blobs k (the fsec)) \<noteq> BARK_SIG_UNKNOWN
            then
              (let s = fs_sig_state (file_blobs k (the fsec))
               in (if s = BARK_SIG_VALID then 0 else - EACCES, Some s, k))
            else
              let k1 = k\<lparr>verify_runs := verify_runs k + 1\<rparr> in
              if bark_enforce k1 = 0 then (0, Some BARK_SIG_VALID, k1)
              else
                let s = BARK_SIG_VALID;
                    k2 = (case fsec of
                            None \<Rightarrow> k1
                          | Some p \<Rightarrow>
                              k1\<lparr>file_blobs :=
                                   (file_blobs k1)(p := (file_blobs k1 p)\<lparr>fs_sig_state := s\<rparr>)\<rparr>)
                in (0, Some s, k2))"

definition get_task_exe_file :: "task_struct \<Rightarrow> struct_file option" where
  "get_task_exe_file task = exe_file task"

definition bark_verify_task_signature ::
  "task_accessor \<Rightarrow> file_accessor \<Rightarrow> bark_state \<Rightarrow> task_struct option
     \<Rightarrow> int \<times> bark_state" where
  "bark_verify_task_signature bt bf k task =
     (case task of
        None \<Rightarrow> (- EINVAL, k)
      | Some t \<Rightarrow>
          let tsec = bt t in
          if tsec \<noteq> None \<and> ts_sig_state (task_blobs k (the tsec)) = BARK_SIG_VALID
          then (0, k)
          else
            (case get_task_exe_file t of
               None \<Rightarrow>
                 (- ENOENT, if bark_verbose k \<noteq> 0 then printk (MsgNoExe (pid t)) k else k)
             | Some exe \<Rightarrow>
                 (case bark_verify_signature bf k (Some exe) True of
                    (ret, state, k1) \<Rightarrow>
                      if ret \<noteq> 0 \<or> state \<noteq> Some BARK_SIG_VALID then (- EACCES, k1)
                      else
                        (0, case tsec of
                              None \<Rightarrow> k1
                            | Some p \<Rightarrow>
                                k1\<lparr>task_blobs :=
                                     (task_blobs k1)
                                       (p := (task_blobs k1 p)
                                          \<lparr>ts_sig_state := BARK_SIG_VALID\<rparr>)\<rparr>))))"

definition bark_is_substrate_signed :: "string option \<Rightarrow> bool" where
  "bark_is_substrate_signed signature = (if signature = None then False else True)"

subsection \<open>Authorization and logging (bark\_hooks.c)\<close>

definition bark_log_authorization ::
  "task_struct option \<Rightarrow> bark_auth_result option \<Rightarrow> bark_state \<Rightarrow> bark_state" where
  "bark_log_authorization task result k =
     (if bark_verbose k = 0 then k
      else case (task, result) of
             (Some t, Some r) \<Rightarrow> printk (MsgAuthorized (pid t) (comm t) (entropy_level r)) k
           | _ \<Rightarrow> k)"

definition bark_log_violation ::
  "task_struct option \<Rightarrow> string option \<Rightarrow> bark_state \<Rightarrow> bark_state" where
  "bark_log_violation task why k =
     (let msg = (case why of None \<Rightarrow> ''Unknown violation'' | Some r \<Rightarrow> r) in
      case task of
        Some t \<Rightarrow> printk (MsgViolation (Some (pid t, comm t)) msg) k
      | None \<Rightarrow> printk (MsgViolation None msg) k)"

definition bark_log_entropy_exceeded :: "64 word \<Rightarrow> 64 word \<Rightarrow> bark_state \<Rightarrow> bark_state" where
  "bark_log_entropy_exceeded level ceiling k = printk (MsgEntropyExceeded level ceiling) k"

text \<open>
  \<^verbatim>\<open>bark_authorize_task(task, result)\<close>: \<open>result\<close> tells whether the out pointer is
  non-null, the second component of the value is the record left behind it.
\<close>

definition bark_authorize_task ::
  "task_accessor \<Rightarrow> file_accessor \<Rightarrow> bark_state \<Rightarrow> task_struct option \<Rightarrow> bool
     \<Rightarrow> int \<times> bark_auth_result option \<times> bark_state" where
  "bark_authorize_task bt bf k task result =
     (if task = None \<or> \<not> result then (- EINVAL, None, k)
      else
        let r0 = zero_auth_result;
            r1 = r0\<lparr>entropy_level := bark_get_entropy_level k\<rparr>
        in
          if entropy_level r1 > bark_max_entropy k
          then (- EPERM,
                Some (r1\<lparr>authorized := False, reason := Some ''Entropy ceiling exceeded''\<rparr>), k)
          else
            (case bark_verify_task_signature bt bf k task of
               (ret, k1) \<Rightarrow>
                 if ret \<noteq> 0
                 then (ret,
                       Some (r1\<lparr>ar_sig_state := BARK_SIG_INVALID, authorized := False,
                                 reason := Some ''Signature verification failed''\<rparr>), k1)
                 else (0,
                       Some (r1\<lparr>ar_sig_state := BARK_SIG_VALID, authorized := True,
                                 reason := None\<rparr>), k1)))"

definition bark_authorize_file_exec ::
  "file_accessor \<Rightarrow> bark_state \<Rightarrow> struct_file option \<Rightarrow> int \<times> bark_state" where
  "bark_authorize_file_exec bf k filp =
     (if filp = None then (- EINVAL, k)
      else
        case bark_verify_signature bf k filp True of
          (ret, state, k1) \<Rightarrow>
            if ret \<noteq> 0 then (ret, k1)
            else if state \<noteq> Some BARK_SIG_VALID then (- EACCES, k1)
            else (0, k1))"

subsection \<open>The LSM hooks (bark\_main.c)\<close>

definition bark_task_alloc_hook ::
  "task_accessor \<Rightarrow> file_accessor \<Rightarrow> bark_state \<Rightarrow> task_struct option \<Rightarrow> 64 word
     \<Rightarrow> int \<times> bark_state" where
  "bark_task_alloc_hook bt bf k task clone_flags =
     (if bark_enforce k = 0 then (0, k)
      else
        case bark_check_entropy_ceiling k of
          (c, k1) \<Rightarrow>
            if c \<noteq> 0
            then
              (let k2 = (if bark_verbose k1 \<noteq> 0 then printk MsgEntropyLimit k1 else k1);
                   k3 = bark_log_entropy_exceeded (bark_get_entropy_level k2)
                          (bark_max_entropy k2) k2;
                   k4 = k3\<lparr>entropy_blocks := entropy_blocks k3 + 1\<rparr>
               in (BARK_ERR_ENTROPY_EXCEEDED, k4))
            else
              (case bark_authorize_task bt bf k1 task True of
                 (ret, result, k2) \<Rightarrow>
                   let res = (case result of None \<Rightarrow> zero_auth_result | Some r \<Rightarrow> r) in
                   if ret \<noteq> 0
                   then
                     (let k3 = (if bark_verbose k2 \<noteq> 0
                                then printk (MsgUnauthorized
                                       (case reason res of None \<Rightarrow> ''unknown'' | Some r \<Rightarrow> r)) k2
                                else k2);
                          k4 = bark_log_violation task (reason res) k3;
                          k5 = k4\<lparr>denials := denials k4 + 1\<rparr>
                      in (BARK_ERR_NOT_AUTHORIZED, k5))
                   else
                     (let k3 = bark_log_authorization task (Some res) k2;
                          k4 = k3\<lparr>authorizations := authorizations k3 + 1\<rparr>
                      in (0, k4))))"

definition bark_task_free_hook :: "task_accessor \<Rightarrow> bark_state \<Rightarrow> task_struct \<Rightarrow> bark_state" where
  "bark_task_free_hook bt k task =
     (case bt task of
        None \<Rightarrow> k
      | Some p \<Rightarrow> k\<lparr>task_blobs := (task_blobs k)(p := zero_task_security)\<rparr>)"

definition bark_bprm_check_hook ::
  "file_accessor \<Rightarrow> bark_state \<Rightarrow> linux_binprm \<Rightarrow> int \<times> bark_state" where
  "bark_bprm_check_hook bf k bprm =
     (if bark_enforce k = 0 then (0, k)
      else
        case bark_verify_signature bf k (bprm_file bprm) True of
          (ret, state, k1) \<Rightarrow>
            if ret \<noteq> 0 \<or> state \<noteq> Some BARK_SIG_VALID
            then
              (let k2 = (if bark_verbose k1 \<noteq> 0
                         then printk (MsgSigFailed (filename bprm)) k1 else k1);
                   k3 = k2\<lparr>signature_failures := signature_failures k2 + 1\<rparr>
               in (BARK_ERR_SIGNATURE_INVALID, k3))
            else (0, k1))"

definition bark_file_permission_hook :: "bark_state \<Rightarrow> struct_file option \<Rightarrow> int \<Rightarrow> int \<times> bark_state" where
  "bark_file_permission_hook k filp perm_mask = (0, k)"

definition bark_task_fix_setuid_hook ::
  "task_accessor \<Rightarrow> file_accessor \<Rightarrow> bark_state \<Rightarrow> task_struct option \<Rightarrow> int \<times> bark_state" where
  "bark_task_fix_setuid_hook bt bf k current =
     (if bark_enforce k = 0 then (0, k)
      else
        case bark_verify_task_signature bt bf k current of
          (ret, k1) \<Rightarrow>
            if ret \<noteq> 0
            then (BARK_ERR_NOT_AUTHORIZED,
                  if bark_verbose k1 \<noteq> 0 then printk MsgCredBlocked k1 else k1)
            else (0, k1))"

subsection \<open>Concrete subjects and states for the examples\<close>

definition example_file :: struct_file where
  "example_file = \<lparr>f_content = [127, 69, 76, 70], f_signature = None\<rparr>"

definition example_task :: task_struct where
  "example_task = \<lparr>pid = 42, comm = ''sh'', exe_file = Some example_file\<rparr>"

definition orphan_task :: task_struct where
  "orphan_task = \<lparr>pid = 43, comm = ''kthread'', exe_file = None\<rparr>"

definition example_bprm :: linux_binprm where
  "example_bprm = \<lparr>bprm_file = Some example_file, filename = ''/bin/sh''\<rparr>"

definition invalid_file_blobs :: "nat \<Rightarrow> bark_file_security" where
  "invalid_file_blobs = (\<lambda>_. zero_file_security\<lparr>fs_sig_state := BARK_SIG_INVALID\<rparr>)"

definition valid_task_blobs :: "nat \<Rightarrow> bark_task_security" where
  "valid_task_blobs = (\<lambda>_. zero_task_security\<lparr>ts_sig_state := BARK_SIG_VALID\<rparr>)"

definition ceiling_100 :: bark_state where
  "ceiling_100 = bark_initial\<lparr>bark_max_entropy := 100\<rparr>"

section \<open>Properties\<close>

subsection \<open>Signed reading of the 64-bit entropy counter\<close>


lemma signed_mod_cases:
  fixes x M :: int
  assumes "0 \<le> x" "x < 2 * M"
  shows "(x + M) mod (2 * M) - M = (if x < M then x else x - 2 * M)"
proof (cases "x < M")
  case True
  then have "(x + M) mod (2 * M) = x + M"
    using assms by (intro mod_pos_pos_trivial) auto
  with True show ?thesis by simp
next
  case False
  have "(x + M) mod (2 * M) = ((x - M) + 2 * M) mod (2 * M)" by (simp add: algebra_simps)
  also have "\<dots> = (x - M) mod (2 * M)" by (simp only: mod_add_self2)
  also have "\<dots> = x - M"
    using assms False by (intro mod_pos_pos_trivial) auto
  finally show ?thesis using False by simp
qed

lemma sint64_uint: "sint (c::64 word) = (if uint c < 2^63 then uint c else uint c - 2^64)"
proof -
  have b: "0 \<le> uint c" "uint c < 2 * 2^63"
    using uint_bounded[of c] by simp_all
  have s: "sint c = (uint c + 2^63) mod (2 * 2^63) - 2^63"
    by (simp add: sint_uint signed_take_bit_eq_take_bit_shift take_bit_eq_mod)
  show ?thesis
    unfolding s using signed_mod_cases[OF b] by simp
qed

lemma uint_pred: "(w::64 word) \<noteq> 0 \<Longrightarrow> uint (w - 1) = uint w - 1"
proof -
  assume "w \<noteq> 0"
  then have "uint w \<noteq> 0" by (simp add: uint_0_iff)
  moreover have "0 \<le> uint w" by simp
  ultimately have "1 \<le> uint w" by linarith
  then have "uint (1::64 word) \<le> uint w" by simp
  then show ?thesis using uint_sub_lem[of 1 w] by simp
qed

lemma update_entropy_sint:
  assumes "0 \<le> sint (current_entropy k)"
    and "sint (current_entropy k) + uint d < 2^63"
  shows "sint (current_entropy (bark_update_entropy d k)) =
           (if 0 < sint (current_entropy k) + uint d
            then sint (current_entropy k) + uint d - 1
            else sint (current_entropy k) + uint d)"
proof -
  let ?c = "current_entropy k"
  have c: "sint ?c = uint ?c" "uint ?c < 2^63"
    using assms(1) uint_bounded[of ?c] by (auto simp: sint64_uint split: if_splits)
  have d: "0 \<le> uint d" by simp
  have "uint (?c + d) = (uint ?c + uint d) mod 2^64"
    by (simp add: uint_word_ariths)
  also have "\<dots> = uint ?c + uint d"
    using assms(2) c d by (intro mod_pos_pos_trivial) auto
  finally have u: "uint (?c + d) = uint ?c + uint d" .
  then have s: "sint (?c + d) = uint ?c + uint d"
    using assms(2) c by (simp add: sint64_uint)
  show ?thesis
  proof (cases "0 < sint (?c + d)")
    case True
    then have nz: "?c + d \<noteq> 0" by auto
    have "uint (?c + d - 1) = uint (?c + d) - 1"
      using nz by (rule uint_pred)
    then have "sint (?c + d - 1) = uint ?c + uint d - 1"
      using u assms(2) c by (simp add: sint64_uint)
    with True s c show ?thesis
      by (simp add: bark_update_entropy_def word_sless_alt)
  next
    case False
    with s c show ?thesis
      by (simp add: bark_update_entropy_def word_sless_alt)
  qed
qed

lemma fold_update_entropy_bounds:
  "0 \<le> sint (current_entropy k) \<Longrightarrow>
   sint (current_entropy k) + sum_list (map uint ds) < 2^63 \<Longrightarrow>
   0 \<le> sint (current_entropy (fold bark_update_entropy ds k)) \<and>
   sint (current_entropy (fold bark_update_entropy ds k))
     \<le> sint (current_entropy k) + sum_list (map uint ds)"
proof (induction ds arbitrary: k)
  case Nil
  then show ?case by simp
next
  case (Cons d ds)
  have nn: "0 \<le> sum_list (map uint ds)" by (rule sum_list_nonneg) auto
  have d0: "0 \<le> uint d" by simp
  have pre: "sint (current_entropy k) + uint d < 2^63"
    using Cons.prems(2) nn by simp
  let ?k1 = "bark_update_entropy d k"
  have st: "sint (current_entropy ?k1) =
           (if 0 < sint (current_entropy k) + uint d
            then sint (current_entropy k) + uint d - 1
            else sint (current_entropy k) + uint d)"
    by (rule update_entropy_sint[OF Cons.prems(1) pre])
  have a: "0 \<le> sint (current_entropy ?k1)"
    using st Cons.prems(1) d0 by (simp split: if_splits)
  have b: "sint (current_entropy ?k1) \<le> sint (current_entropy k) + uint d"
    using st by (simp split: if_splits)
  have c: "sint (current_entropy ?k1) + sum_list (map uint ds) < 2^63"
    using b Cons.prems(2) by simp
  from Cons.IH[OF a c] b show ?case by simp
qed

lemma sum_list_take_le:
  "sum_list (map uint (take n (ds::64 word list))) \<le> sum_list (map uint ds)"
proof -
  have "sum_list (map uint ds) = sum_list (map uint (take n ds)) + sum_list (map uint (drop n ds))"
    by (metis append_take_drop_id map_append sum_list_append)
  moreover have "0 \<le> sum_list (map uint (drop n ds))" by (rule sum_list_nonneg) auto
  ultimately show ?thesis by simp
qed


lemma update_zero_iter:
  "0 \<le> sint (current_entropy k) \<Longrightarrow>
   sint (current_entropy ((bark_update_entropy 0 ^^ n) k)) = max 0 (sint (current_entropy k) - int n)"
proof (induction n)
  case 0
  then show ?case by simp
next
  case (Suc n)
  let ?k = "(bark_update_entropy 0 ^^ n) k"
  have v: "sint (current_entropy ?k) = max 0 (sint (current_entropy k) - int n)"
    using Suc by simp
  have b: "sint (current_entropy k) < 2^63" using sint_lt[of "current_entropy k"] by simp
  have a: "0 \<le> sint (current_entropy ?k)" using v by simp
  have c: "sint (current_entropy ?k) + uint (0::64 word) < 2^63" using v b Suc.prems by simp
  show ?case using update_entropy_sint[OF a c] v by (simp add: max_def)
qed

subsection \<open>The entropy counter\<close>

text \<open>
  Claim C6, as stated: for every finite sequence of \<open>update\<close> calls starting from counter 0
  the counter is non-negative after every step. The counter is a signed \<^verbatim>\<open>long\<close> and the
  addition wraps: one update by \<open>2^63\<close> from 0 leaves \<^verbatim>\<open>LONG_MIN\<close>, which is negative (and
  is not decayed, not being positive).
\<close>

theorem entropy_nonneg_counterexample:
  "sint (current_entropy (fold bark_update_entropy [2^63] bark_initial)) < 0"
  by (simp add: bark_update_entropy_def bark_initial_def word_sless_alt)


text \<open>
  Claim C6, amended: starting from counter 0, as long as the deltas sum to at most
  \<open>2^63 - 1\<close> (\<^verbatim>\<open>LONG_MAX\<close>, so that no addition wraps), the counter is non-negative after
  every step of the sequence.
\<close>

theorem entropy_nonneg_no_overflow:
  assumes "current_entropy k = 0"
    and "sum_list (map uint ds) < 2^63"
  shows "\<forall>n \<le> length ds. 0 \<le>s current_entropy (fold bark_update_entropy (take n ds) k)"
proof (intro allI impI)
  fix n
  have "sint (current_entropy k) + sum_list (map uint (take n ds)) < 2^63"
    using assms sum_list_take_le[of n ds] by simp
  moreover have "0 \<le> sint (current_entropy k)" using assms(1) by simp
  ultimately show "0 \<le>s current_entropy (fold bark_update_entropy (take n ds) k)"
    using fold_update_entropy_bounds[of k "take n ds"] by (simp add: word_sle_eq)
qed


text \<open>The amended claim C6 at the deltas 10, 5, 0.\<close>

theorem entropy_nonneg_witness:
  "current_entropy bark_initial = 0 \<and> sum_list (map uint [10, 5, 0 :: 64 word]) < 2^63 \<and>
   0 \<le>s current_entropy (fold bark_update_entropy (take 1 [10, 5, 0]) bark_initial) \<and>
   0 \<le>s current_entropy (fold bark_update_entropy (take 2 [10, 5, 0]) bark_initial) \<and>
   0 \<le>s current_entropy (fold bark_update_entropy (take 3 [10, 5, 0]) bark_initial)"
proof -
  have a: "current_entropy bark_initial = 0" by (simp add: bark_initial_def)
  have b: "sum_list (map uint [10, 5, 0 :: 64 word]) < 2^63" by simp
  note t = entropy_nonneg_no_overflow [OF a b, rule_format]
  have "0 \<le>s current_entropy (fold bark_update_entropy (take 1 [10, 5, 0]) bark_initial)"
    by (rule t) simp
  moreover
  have "0 \<le>s current_entropy (fold bark_update_entropy (take 2 [10, 5, 0]) bark_initial)"
    by (rule t) simp
  moreover
  have "0 \<le>s current_entropy (fold bark_update_entropy (take 3 [10, 5, 0]) bark_initial)"
    by (rule t) simp
  ultimately show ?thesis using a b by blast
qed

text \<open>
  Claim C7: \<^verbatim>\<open>bark_update_entropy\<close> adds \<open>delta\<close> and then subtracts 1 exactly when
  the value after the addition is positive; an update by 0 lowers a positive counter by
  exactly 1; from 0, any number of updates by 0 leave the counter at 0. The last conjunct
  puts the two together: \<open>n\<close> updates by 0 take a non-negative counter \<open>c\<close> to
  \<open>max 0 (c - n)\<close>.
\<close>

theorem update_entropy_decay:
  "current_entropy (bark_update_entropy delta k) =
     (if 0 <s current_entropy k + delta then current_entropy k + delta - 1
      else current_entropy k + delta)
   \<and> (0 <s current_entropy k \<longrightarrow>
        sint (current_entropy (bark_update_entropy 0 k)) = sint (current_entropy k) - 1)
   \<and> (current_entropy k = 0 \<longrightarrow> current_entropy ((bark_update_entropy 0 ^^ n) k) = 0)
   \<and> (0 \<le>s current_entropy k \<longrightarrow>
        sint (current_entropy ((bark_update_entropy 0 ^^ n) k))
          = max 0 (sint (current_entropy k) - int n))"
proof (intro conjI impI)
  show "current_entropy (bark_update_entropy delta k) =
     (if 0 <s current_entropy k + delta then current_entropy k + delta - 1
      else current_entropy k + delta)"
    by (simp add: bark_update_entropy_def)
next
  assume "0 <s current_entropy k"
  then show "sint (current_entropy (bark_update_entropy 0 k)) = sint (current_entropy k) - 1"
    using update_zero_iter[of k 1] by (simp add: word_sless_alt)
next
  assume z: "current_entropy k = 0"
  then have "sint (current_entropy ((bark_update_entropy 0 ^^ n) k)) = 0"
    using update_zero_iter[of k n] by simp
  then show "current_entropy ((bark_update_entropy 0 ^^ n) k) = 0"
    by (simp add: signed_eq_0_iff)
next
  assume "0 \<le>s current_entropy k"
  then show "sint (current_entropy ((bark_update_entropy 0 ^^ n) k))
          = max 0 (sint (current_entropy k) - int n)"
    using update_zero_iter[of k n] by (simp add: word_sle_eq)
qed

text \<open>
Claim C7 at a counter of 2 (positive) and at the initial counter 0.
\<close>

theorem update_entropy_decay_witness:
  "current_entropy (bark_update_entropy 5 (bark_initial\<lparr>current_entropy := 2\<rparr>)) = 6
   \<and> 0 <s current_entropy (bark_initial\<lparr>current_entropy := 2\<rparr>)
   \<and> sint (current_entropy (bark_update_entropy 0 (bark_initial\<lparr>current_entropy := 2\<rparr>))) = 1
   \<and> sint (current_entropy ((bark_update_entropy 0 ^^ 3) (bark_initial\<lparr>current_entropy := 2\<rparr>))) = 0
   \<and> current_entropy bark_initial = 0
   \<and> current_entropy ((bark_update_entropy 0 ^^ 3) bark_initial) = 0"
proof -
  let ?K = "bark_initial\<lparr>current_entropy := 2\<rparr>"
  note t = update_entropy_decay [of 5 ?K 3]
  note u = update_entropy_decay [of 0 bark_initial 3]
  have p: "0 <s current_entropy ?K" by (simp add: word_sless_alt)
  have q: "0 \<le>s current_entropy ?K" by (simp add: word_sle_eq)
  have z: "current_entropy bark_initial = 0" by (simp add: bark_initial_def)
  have "current_entropy (bark_update_entropy 5 ?K) = 6"
    using t [THEN conjunct1] by (simp add: word_sless_alt)
  moreover have "sint (current_entropy (bark_update_entropy 0 ?K)) = 1"
    using t [THEN conjunct2, THEN conjunct1, rule_format, OF p] by simp
  moreover have "sint (current_entropy ((bark_update_entropy 0 ^^ 3) ?K)) = 0"
    using t [THEN conjunct2, THEN conjunct2, THEN conjunct2, rule_format, OF q] by simp
  moreover have "current_entropy ((bark_update_entropy 0 ^^ 3) bark_initial) = 0"
    using u [THEN conjunct2, THEN conjunct2, THEN conjunct1, rule_format, OF z] .
  ultimately show ?thesis using p z by blast
qed

subsection \<open>Signature verification\<close>

lemma is_substrate_signed_stub: "bark_is_substrate_signed (Some sig)"
  by (simp add: bark_is_substrate_signed_def)

lemma verify_signature_frame:
  "signature_failures (snd (snd (bark_verify_signature bf k filp st))) = signature_failures k
   \<and> current_entropy (snd (snd (bark_verify_signature bf k filp st))) = current_entropy k
   \<and> bark_verbose (snd (snd (bark_verify_signature bf k filp st))) = bark_verbose k"
  by (auto simp: bark_verify_signature_def Let_def split: option.splits)

lemma verify_signature_valid_ret:
  "fst (snd (bark_verify_signature bf k filp st)) = Some BARK_SIG_VALID
     \<Longrightarrow> fst (bark_verify_signature bf k filp st) = 0"
  by (auto simp: bark_verify_signature_def Let_def split: option.splits if_splits)

lemma verify_signature_entropy_indep:
  "bark_verify_signature bf (k\<lparr>current_entropy := e\<rparr>) filp st =
     (fst (bark_verify_signature bf k filp st),
      fst (snd (bark_verify_signature bf k filp st)),
      (snd (snd (bark_verify_signature bf k filp st)))\<lparr>current_entropy := e\<rparr>)"
  by (auto simp: bark_verify_signature_def Let_def split: option.splits)

lemma verify_signature_stub:
  "bark_verify_signature bark_file k (Some f) True
     = (0, Some BARK_SIG_VALID, k\<lparr>verify_runs := verify_runs k + 1\<rparr>)"
  by (simp add: bark_verify_signature_def bark_file_def Let_def)

lemma verify_task_signature_stub:
  "bark_verify_task_signature bark_task bark_file k (Some t)
     = (case get_task_exe_file t of
          None \<Rightarrow> (- ENOENT, if bark_verbose k \<noteq> 0 then printk (MsgNoExe (pid t)) k else k)
        | Some exe \<Rightarrow> (0, k\<lparr>verify_runs := verify_runs k + 1\<rparr>))"
  by (simp add: bark_verify_task_signature_def verify_signature_stub bark_task_def Let_def
      split: option.splits)

lemma authorize_file_exec_gate:
  "(fst (bark_authorize_file_exec bf k (Some f)) = 0 \<longleftrightarrow>
      fst (snd (bark_verify_signature bf k (Some f) True)) = Some BARK_SIG_VALID)
   \<and> signature_failures (snd (bark_authorize_file_exec bf k (Some f))) = signature_failures k"
proof -
  obtain ret st k1 where v: "bark_verify_signature bf k (Some f) True = (ret, st, k1)"
    by (cases "bark_verify_signature bf k (Some f) True") auto
  have "signature_failures k1 = signature_failures k"
    using verify_signature_frame [of bf k "Some f" True] v by simp
  moreover have "st = Some BARK_SIG_VALID \<Longrightarrow> ret = 0"
    using verify_signature_valid_ret [of bf k "Some f" True] v by simp
  ultimately show ?thesis using v
    by (auto simp: bark_authorize_file_exec_def)
qed

text \<open>
  Claim C1: for a non-null file whose blob is absent or in state \<^verbatim>\<open>BARK_SIG_UNKNOWN\<close>,
  \<^verbatim>\<open>bark_verify_signature\<close> returns 0 and stores \<^verbatim>\<open>BARK_SIG_VALID\<close>, whatever the file
  (content, signature) and whatever the enforcement flag \<open>e\<close>; hence
  \<^verbatim>\<open>bark_bprm_check_hook\<close> never denies such a file.
\<close>

theorem verify_signature_always_valid:
  assumes "case bf f of None \<Rightarrow> True
           | Some p \<Rightarrow> fs_sig_state (file_blobs k p) = BARK_SIG_UNKNOWN"
  shows "fst (bark_verify_signature bf (k\<lparr>bark_enforce := e\<rparr>) (Some f) True) = 0
       \<and> fst (snd (bark_verify_signature bf (k\<lparr>bark_enforce := e\<rparr>) (Some f) True))
           = Some BARK_SIG_VALID
       \<and> fst (bark_bprm_check_hook bf (k\<lparr>bark_enforce := e\<rparr>)
                \<lparr>bprm_file = Some f, filename = path\<rparr>) = 0"
proof -
  let ?v = "bark_verify_signature bf (k\<lparr>bark_enforce := e\<rparr>) (Some f) True"
  have v: "fst ?v = 0 \<and> fst (snd ?v) = Some BARK_SIG_VALID"
    using assms by (auto simp: bark_verify_signature_def Let_def split: option.splits)
  obtain ret st k1 where r: "?v = (ret, st, k1)" by (cases ?v) auto
  with v have "ret = 0" "st = Some BARK_SIG_VALID" by simp_all
  with r have "fst (bark_bprm_check_hook bf (k\<lparr>bark_enforce := e\<rparr>)
                \<lparr>bprm_file = Some f, filename = path\<rparr>) = 0"
    by (simp add: bark_bprm_check_hook_def)
  with v show ?thesis by blast
qed

text \<open>
  Claim C1 at an unsigned file without blob under enforcement, and at a file with a forged
  signature and a blob in state \<^verbatim>\<open>BARK_SIG_UNKNOWN\<close> without enforcement.
\<close>

theorem verify_signature_always_valid_witness:
  "fst (bark_verify_signature bark_file (bark_initial\<lparr>bark_enforce := 1\<rparr>)
          (Some example_file) True) = 0
   \<and> fst (snd (bark_verify_signature bark_file (bark_initial\<lparr>bark_enforce := 1\<rparr>)
          (Some example_file) True)) = Some BARK_SIG_VALID
   \<and> fst (bark_bprm_check_hook bark_file (bark_initial\<lparr>bark_enforce := 1\<rparr>)
            \<lparr>bprm_file = Some example_file, filename = ''/bin/sh''\<rparr>) = 0
   \<and> fst (bark_verify_signature (\<lambda>f. Some 7) (bark_initial\<lparr>bark_enforce := 0\<rparr>)
          (Some (example_file\<lparr>f_signature := Some ''forged''\<rparr>)) True) = 0
   \<and> fst (snd (bark_verify_signature (\<lambda>f. Some 7) (bark_initial\<lparr>bark_enforce := 0\<rparr>)
          (Some (example_file\<lparr>f_signature := Some ''forged''\<rparr>)) True)) = Some BARK_SIG_VALID"
proof -
  have a: "case bark_file example_file of None \<Rightarrow> True
           | Some p \<Rightarrow> fs_sig_state (file_blobs bark_initial p) = BARK_SIG_UNKNOWN"
    by (simp add: bark_file_def)
  have b: "case (\<lambda>f. Some 7) (example_file\<lparr>f_signature := Some ''forged''\<rparr>) of None \<Rightarrow> True
           | Some p \<Rightarrow> fs_sig_state (file_blobs bark_initial p) = BARK_SIG_UNKNOWN"
    by (simp add: bark_initial_def zero_file_security_def)
  show ?thesis
    using verify_signature_always_valid
            [where bf = bark_file and f = example_file and k = bark_initial and e = 1
               and path = "''/bin/sh''", OF a]
          verify_signature_always_valid
            [where bf = "\<lambda>f. Some 7" and f = "example_file\<lparr>f_signature := Some ''forged''\<rparr>"
               and k = bark_initial and e = 0 and path = "[]", OF b]
    by blast
qed



text \<open>
  Claim C4: the accessors \<^verbatim>\<open>bark_task\<close> and \<^verbatim>\<open>bark_file\<close> of the source return
  \<^verbatim>\<open>NULL\<close> for every subject. With them every call of \<^verbatim>\<open>bark_verify_signature\<close> on a
  file runs the verification proper (one more run) and stores nothing; every call of
  \<^verbatim>\<open>bark_verify_task_signature\<close> on a task goes past the cache test, to the executable
  lookup and the file verification, and leaves both blob memories as they were; and
  \<^verbatim>\<open>bark_task_free_hook\<close> clears nothing. None of the results depends on what the blob
  memories hold.
\<close>

theorem stub_accessors_never_cache:
  "bark_task t = None \<and> bark_file f = None
   \<and> bark_verify_signature bark_file k (Some f) True
       = (0, Some BARK_SIG_VALID, k\<lparr>verify_runs := verify_runs k + 1\<rparr>)
   \<and> bark_verify_task_signature bark_task bark_file k (Some t)
       = (case get_task_exe_file t of
            None \<Rightarrow> (- ENOENT, if bark_verbose k \<noteq> 0 then printk (MsgNoExe (pid t)) k else k)
          | Some exe \<Rightarrow> (0, k\<lparr>verify_runs := verify_runs k + 1\<rparr>))
   \<and> task_blobs (snd (bark_verify_task_signature bark_task bark_file k (Some t))) = task_blobs k
   \<and> file_blobs (snd (bark_verify_task_signature bark_task bark_file k (Some t))) = file_blobs k
   \<and> bark_task_free_hook bark_task k t = k"
proof -
  have "bark_task t = None" "bark_file f = None"
    by (simp_all add: bark_task_def bark_file_def)
  moreover
  have "task_blobs (snd (bark_verify_task_signature bark_task bark_file k (Some t))) = task_blobs k"
    "file_blobs (snd (bark_verify_task_signature bark_task bark_file k (Some t))) = file_blobs k"
    by (simp_all add: verify_task_signature_stub printk_def split: option.splits)
  moreover
  have "bark_task_free_hook bark_task k t = k"
    by (simp add: bark_task_free_hook_def bark_task_def)
  ultimately show ?thesis
    using verify_signature_stub [of k f] verify_task_signature_stub [of k t] by blast
qed

text \<open>
  Claim C4 at blob memories that say Invalid for every file and Valid for every task: the
  file is verified and found Valid all the same, the task with an executable is verified
  anew, the task without one gets \<^verbatim>\<open>-ENOENT\<close>.
\<close>

theorem stub_accessors_never_cache_witness:
  "bark_verify_signature bark_file (bark_initial\<lparr>file_blobs := invalid_file_blobs\<rparr>)
      (Some example_file) True
     = (0, Some BARK_SIG_VALID,
        bark_initial\<lparr>file_blobs := invalid_file_blobs, verify_runs := 1\<rparr>)
   \<and> bark_verify_task_signature bark_task bark_file
        (bark_initial\<lparr>task_blobs := valid_task_blobs\<rparr>) (Some example_task)
     = (0, bark_initial\<lparr>task_blobs := valid_task_blobs, verify_runs := 1\<rparr>)
   \<and> bark_verify_task_signature bark_task bark_file
        (bark_initial\<lparr>task_blobs := valid_task_blobs\<rparr>) (Some orphan_task)
     = (- ENOENT, bark_initial\<lparr>task_blobs := valid_task_blobs\<rparr>)
   \<and> bark_task_free_hook bark_task (bark_initial\<lparr>task_blobs := valid_task_blobs\<rparr>) example_task
     = bark_initial\<lparr>task_blobs := valid_task_blobs\<rparr>"
proof -
  let ?KF = "bark_initial\<lparr>file_blobs := invalid_file_blobs\<rparr>"
  let ?KT = "bark_initial\<lparr>task_blobs := valid_task_blobs\<rparr>"
  note a = stub_accessors_never_cache [of example_task example_file ?KF]
  note b = stub_accessors_never_cache [of example_task example_file ?KT]
  note c = stub_accessors_never_cache [of orphan_task example_file ?KT]
  have "bark_verify_signature bark_file ?KF (Some example_file) True
          = (0, Some BARK_SIG_VALID, ?KF\<lparr>verify_runs := 1\<rparr>)"
    using a [THEN conjunct2, THEN conjunct2, THEN conjunct1] by (simp add: bark_initial_def)
  moreover
  have "bark_verify_task_signature bark_task bark_file ?KT (Some example_task)
          = (0, ?KT\<lparr>verify_runs := 1\<rparr>)"
    using b [THEN conjunct2, THEN conjunct2, THEN conjunct2, THEN conjunct1]
    by (simp add: bark_initial_def get_task_exe_file_def example_task_def)
  moreover
  have "bark_verify_task_signature bark_task bark_file ?KT (Some orphan_task) = (- ENOENT, ?KT)"
    using c [THEN conjunct2, THEN conjunct2, THEN conjunct2, THEN conjunct1]
    by (simp add: bark_initial_def get_task_exe_file_def orphan_task_def)
  moreover
  have "bark_task_free_hook bark_task ?KT example_task = ?KT"
    using b by blast
  ultimately show ?thesis by blast
qed

text \<open>
  Claim C10: for a non-null task whose blob is absent or not \<^verbatim>\<open>BARK_SIG_VALID\<close> and whose
  executable cannot be resolved, \<^verbatim>\<open>bark_verify_task_signature\<close> returns \<^verbatim>\<open>-ENOENT\<close>,
  which is not the \<^verbatim>\<open>-EACCES\<close> of a rejected signature; it writes to no blob and runs
  no verification, and a second call gives \<^verbatim>\<open>-ENOENT\<close> again.
\<close>

theorem verify_task_unresolvable:
  assumes "case bt t of None \<Rightarrow> True
           | Some q \<Rightarrow> ts_sig_state (task_blobs k q) \<noteq> BARK_SIG_VALID"
    and "get_task_exe_file t = None"
  shows "fst (bark_verify_task_signature bt bf k (Some t)) = - ENOENT
       \<and> fst (bark_verify_task_signature bt bf k (Some t)) \<noteq> - EACCES
       \<and> task_blobs (snd (bark_verify_task_signature bt bf k (Some t))) = task_blobs k
       \<and> file_blobs (snd (bark_verify_task_signature bt bf k (Some t))) = file_blobs k
       \<and> verify_runs (snd (bark_verify_task_signature bt bf k (Some t))) = verify_runs k
       \<and> fst (bark_verify_task_signature bt bf
                (snd (bark_verify_task_signature bt bf k (Some t))) (Some t)) = - ENOENT"
  using assms
  by (auto simp: bark_verify_task_signature_def Let_def printk_def split: option.splits)

text \<open>
Claim C10 at a task without executable whose blob says Invalid.
\<close>

theorem verify_task_unresolvable_witness:
  "get_task_exe_file orphan_task = None
   \<and> fst (bark_verify_task_signature (\<lambda>t. Some 3) bark_file
            (bark_initial\<lparr>task_blobs := (\<lambda>_. zero_task_security\<lparr>ts_sig_state := BARK_SIG_INVALID\<rparr>)\<rparr>)
            (Some orphan_task)) = - ENOENT
   \<and> task_blobs (snd (bark_verify_task_signature (\<lambda>t. Some 3) bark_file
            (bark_initial\<lparr>task_blobs := (\<lambda>_. zero_task_security\<lparr>ts_sig_state := BARK_SIG_INVALID\<rparr>)\<rparr>)
            (Some orphan_task)))
       = (\<lambda>_. zero_task_security\<lparr>ts_sig_state := BARK_SIG_INVALID\<rparr>)"
proof -
  let ?K = "bark_initial\<lparr>task_blobs := (\<lambda>_. zero_task_security\<lparr>ts_sig_state := BARK_SIG_INVALID\<rparr>)\<rparr>"
  have a: "case (\<lambda>t. Some 3) orphan_task of None \<Rightarrow> True
           | Some q \<Rightarrow> ts_sig_state (task_blobs ?K q) \<noteq> BARK_SIG_VALID"
    by simp
  have b: "get_task_exe_file orphan_task = None"
    by (simp add: get_task_exe_file_def orphan_task_def)
  note t = verify_task_unresolvable
             [where bt = "\<lambda>t. Some 3" and t = orphan_task and k = ?K and bf = bark_file, OF a b]
  have "task_blobs (snd (bark_verify_task_signature (\<lambda>t. Some 3) bark_file ?K (Some orphan_task)))
          = (\<lambda>_. zero_task_security\<lparr>ts_sig_state := BARK_SIG_INVALID\<rparr>)"
    using t [THEN conjunct2, THEN conjunct2, THEN conjunct1] by simp
  then show ?thesis using b t [THEN conjunct1] by blast
qed

subsection \<open>The hooks\<close>

text \<open>
  Claim C9: with enforcement on, \<^verbatim>\<open>bark_bprm_check_hook\<close> returns 0 exactly when
  \<^verbatim>\<open>bark_verify_signature\<close> stores \<^verbatim>\<open>BARK_SIG_VALID\<close> (and then leaves
  \<open>signature_failures\<close> alone); otherwise it returns \<^verbatim>\<open>BARK_ERR_SIGNATURE_INVALID\<close> and
  adds exactly 1 to \<open>signature_failures\<close>. It does not change the entropy counter, and
  its result does not depend on it: run from a state with any other counter value \<open>e\<close>,
  it returns the same code and the same state but for that counter.
\<close>

theorem bprm_check_signature_gate:
  assumes "bark_enforce k \<noteq> 0"
  shows "(fst (bark_bprm_check_hook bf k bprm) = 0 \<longleftrightarrow>
            fst (snd (bark_verify_signature bf k (bprm_file bprm) True)) = Some BARK_SIG_VALID)
       \<and> (fst (snd (bark_verify_signature bf k (bprm_file bprm) True)) = Some BARK_SIG_VALID \<longrightarrow>
            signature_failures (snd (bark_bprm_check_hook bf k bprm)) = signature_failures k)
       \<and> (fst (snd (bark_verify_signature bf k (bprm_file bprm) True)) \<noteq> Some BARK_SIG_VALID \<longrightarrow>
            fst (bark_bprm_check_hook bf k bprm) = BARK_ERR_SIGNATURE_INVALID
          \<and> signature_failures (snd (bark_bprm_check_hook bf k bprm)) = signature_failures k + 1)
       \<and> current_entropy (snd (bark_bprm_check_hook bf k bprm)) = current_entropy k
       \<and> bark_bprm_check_hook bf (k\<lparr>current_entropy := e\<rparr>) bprm =
           (fst (bark_bprm_check_hook bf k bprm),
            (snd (bark_bprm_check_hook bf k bprm))\<lparr>current_entropy := e\<rparr>)"
proof -
  obtain ret st k1 where v: "bark_verify_signature bf k (bprm_file bprm) True = (ret, st, k1)"
    by (cases "bark_verify_signature bf k (bprm_file bprm) True") auto
  have fr: "signature_failures k1 = signature_failures k" "current_entropy k1 = current_entropy k"
    "bark_verbose k1 = bark_verbose k"
    using verify_signature_frame [of bf k "bprm_file bprm" True] v by simp_all
  have r0: "st = Some BARK_SIG_VALID \<Longrightarrow> ret = 0"
    using verify_signature_valid_ret [of bf k "bprm_file bprm" True] v by simp
  have ve: "bark_verify_signature bf (k\<lparr>current_entropy := e\<rparr>) (bprm_file bprm) True
              = (ret, st, k1\<lparr>current_entropy := e\<rparr>)"
    using verify_signature_entropy_indep
            [where bf = bf and k = k and e = e and filp = "bprm_file bprm" and st = True] v
    by simp
  show ?thesis
    using assms v fr r0 ve
    by (auto simp: bark_bprm_check_hook_def Let_def printk_def)
qed

text \<open>
  Claim C9 at a file that verifies (allowed, no failure counted) and at a file whose blob
  says Invalid (denied, one failure counted).
\<close>

theorem bprm_check_signature_gate_witness:
  "bark_enforce bark_initial = 1
   \<and> fst (bark_bprm_check_hook bark_file bark_initial example_bprm) = 0
   \<and> signature_failures (snd (bark_bprm_check_hook bark_file bark_initial example_bprm)) = 0
   \<and> fst (bark_bprm_check_hook (\<lambda>f. Some 0) (bark_initial\<lparr>file_blobs := invalid_file_blobs\<rparr>)
            example_bprm) = BARK_ERR_SIGNATURE_INVALID
   \<and> signature_failures
        (snd (bark_bprm_check_hook (\<lambda>f. Some 0) (bark_initial\<lparr>file_blobs := invalid_file_blobs\<rparr>)
                example_bprm)) = 1"
proof -
  let ?K = "bark_initial\<lparr>file_blobs := invalid_file_blobs\<rparr>"
  have e: "bark_enforce bark_initial = 1" by (simp add: bark_initial_def)
  have a: "bark_enforce bark_initial \<noteq> 0" by (simp add: bark_initial_def)
  have b: "bark_enforce ?K \<noteq> 0" by (simp add: bark_initial_def)
  have v: "fst (snd (bark_verify_signature bark_file bark_initial (bprm_file example_bprm) True))
             = Some BARK_SIG_VALID"
    by (simp add: bark_verify_signature_def bark_file_def example_bprm_def bark_initial_def)
  have w: "fst (snd (bark_verify_signature (\<lambda>f. Some 0) ?K (bprm_file example_bprm) True))
             \<noteq> Some BARK_SIG_VALID"
    by (simp add: bark_verify_signature_def example_bprm_def invalid_file_blobs_def)
  have z: "signature_failures bark_initial = 0" "signature_failures ?K = 0"
    by (simp_all add: bark_initial_def)
  note t = bprm_check_signature_gate [OF a, of bark_file example_bprm 0]
  note u = bprm_check_signature_gate [OF b, of "\<lambda>f. Some 0" example_bprm 0]
  have "fst (bark_bprm_check_hook bark_file bark_initial example_bprm) = 0"
    using t [THEN conjunct1] v by simp
  moreover
  have "signature_failures (snd (bark_bprm_check_hook bark_file bark_initial example_bprm)) = 0"
    using t [THEN conjunct2, THEN conjunct1, rule_format, OF v] z by simp
  moreover
  have "fst (bark_bprm_check_hook (\<lambda>f. Some 0) ?K example_bprm) = BARK_ERR_SIGNATURE_INVALID
      \<and> signature_failures (snd (bark_bprm_check_hook (\<lambda>f. Some 0) ?K example_bprm)) = 1"
    using u [THEN conjunct2, THEN conjunct2, THEN conjunct1, rule_format, OF w] z by simp
  ultimately show ?thesis using e by blast
qed

text \<open>
  Claim C8: with enforcement off, \<^verbatim>\<open>bark_task_alloc_hook\<close> returns 0 and leaves the whole
  state, the four statistics counters in particular, as it was, for every task, entropy
  level and blob memory.
\<close>

theorem task_alloc_enforce_off:
  assumes "bark_enforce k = 0"
  shows "bark_task_alloc_hook bt bf k task clone_flags = (0, k)
       \<and> authorizations (snd (bark_task_alloc_hook bt bf k task clone_flags)) = authorizations k
       \<and> denials (snd (bark_task_alloc_hook bt bf k task clone_flags)) = denials k
       \<and> entropy_blocks (snd (bark_task_alloc_hook bt bf k task clone_flags)) = entropy_blocks k
       \<and> signature_failures (snd (bark_task_alloc_hook bt bf k task clone_flags))
           = signature_failures k"
  using assms by (simp add: bark_task_alloc_hook_def)

text \<open>
Claim C8 at an entropy level of 500 above a ceiling of 100.
\<close>

theorem task_alloc_enforce_off_witness:
  "bark_enforce (bark_initial\<lparr>bark_enforce := 0, bark_max_entropy := 100, current_entropy := 500\<rparr>) = 0
   \<and> bark_task_alloc_hook bark_task bark_file
        (bark_initial\<lparr>bark_enforce := 0, bark_max_entropy := 100, current_entropy := 500\<rparr>)
        (Some orphan_task) 0
      = (0, bark_initial\<lparr>bark_enforce := 0, bark_max_entropy := 100, current_entropy := 500\<rparr>)"
proof -
  let ?K = "bark_initial\<lparr>bark_enforce := 0, bark_max_entropy := 100, current_entropy := 500\<rparr>"
  have a: "bark_enforce ?K = 0" by simp
  show ?thesis
    using a task_alloc_enforce_off [OF a, of bark_task bark_file "Some orphan_task" 0,
                                    THEN conjunct1]
    by blast
qed

text \<open>
  Claim C2 says that a task creation above the ceiling, with enforcement on, is denied
  with \<^verbatim>\<open>BARK_ERR_ENTROPY_EXCEEDED\<close> and counts one entropy block. The code denies it, and
  leaves \<open>authorizations\<close> and \<open>denials\<close> alone, but counts the block twice: once
  inside \<^verbatim>\<open>bark_check_entropy_ceiling\<close> and once more in \<^verbatim>\<open>bark_task_alloc_hook\<close>.
\<close>

theorem task_alloc_ceiling_counts_twice:
  assumes "bark_enforce k \<noteq> 0"
    and "bark_get_entropy_level k > bark_max_entropy k"
  shows "fst (bark_task_alloc_hook bt bf k task clone_flags) = BARK_ERR_ENTROPY_EXCEEDED
       \<and> entropy_blocks (snd (bark_task_alloc_hook bt bf k task clone_flags))
           = entropy_blocks k + 2
       \<and> authorizations (snd (bark_task_alloc_hook bt bf k task clone_flags)) = authorizations k
       \<and> denials (snd (bark_task_alloc_hook bt bf k task clone_flags)) = denials k
       \<and> verify_runs (snd (bark_task_alloc_hook bt bf k task clone_flags)) = verify_runs k"
  using assms
  by (simp add: bark_task_alloc_hook_def bark_check_entropy_ceiling_def Let_def
      bark_log_entropy_exceeded_def printk_def bark_get_entropy_level_def)

text \<open>
  The double count at ceiling 100 and entropy level 101: one denied task creation takes
  \<open>entropy_blocks\<close> from 0 to 2.
\<close>

theorem task_alloc_ceiling_counts_twice_witness:
  "bark_enforce (ceiling_100\<lparr>current_entropy := 101\<rparr>) = 1
   \<and> bark_max_entropy (ceiling_100\<lparr>current_entropy := 101\<rparr>) = 100
   \<and> bark_get_entropy_level (ceiling_100\<lparr>current_entropy := 101\<rparr>) = 101
   \<and> entropy_blocks (ceiling_100\<lparr>current_entropy := 101\<rparr>) = 0
   \<and> fst (bark_task_alloc_hook bark_task bark_file (ceiling_100\<lparr>current_entropy := 101\<rparr>)
            (Some example_task) 0) = BARK_ERR_ENTROPY_EXCEEDED
   \<and> entropy_blocks
        (snd (bark_task_alloc_hook bark_task bark_file (ceiling_100\<lparr>current_entropy := 101\<rparr>)
                (Some example_task) 0)) = 2"
proof -
  let ?K = "ceiling_100\<lparr>current_entropy := 101\<rparr>"
  have f: "bark_enforce ?K = 1" "bark_max_entropy ?K = 100" "bark_get_entropy_level ?K = 101"
    "entropy_blocks ?K = 0"
    by (simp_all add: ceiling_100_def bark_initial_def bark_get_entropy_level_def)
  have a: "bark_enforce ?K \<noteq> 0" using f by simp
  have b: "bark_get_entropy_level ?K > bark_max_entropy ?K" using f by simp
  note t = task_alloc_ceiling_counts_twice [OF a b, of bark_task bark_file "Some example_task" 0]
  have "entropy_blocks (snd (bark_task_alloc_hook bark_task bark_file ?K (Some example_task) 0)) = 2"
    using t [THEN conjunct2, THEN conjunct1] f by simp
  then show ?thesis using f t [THEN conjunct1] by blast
qed

subsection \<open>The scenario with ceiling 100\<close>

lemma entropy_event_0: "bark_entropy_event 0 k = bark_update_entropy 10 k"
  by (simp add: bark_entropy_event_def)

lemma events_9: "(bark_entropy_event 0 ^^ 9) ceiling_100 = ceiling_100\<lparr>current_entropy := 81\<rparr>"
  by (simp add: numeral_eq_Suc entropy_event_0 bark_update_entropy_def ceiling_100_def
      bark_initial_def word_sless_alt)

lemma events_10: "(bark_entropy_event 0 ^^ 10) ceiling_100 = ceiling_100\<lparr>current_entropy := 90\<rparr>"
  by (simp add: numeral_eq_Suc entropy_event_0 bark_update_entropy_def ceiling_100_def
      bark_initial_def word_sless_alt)

lemma events_11: "(bark_entropy_event 0 ^^ 11) ceiling_100 = ceiling_100\<lparr>current_entropy := 99\<rparr>"
  by (simp add: numeral_eq_Suc entropy_event_0 bark_update_entropy_def ceiling_100_def
      bark_initial_def word_sless_alt)

lemma events_12: "(bark_entropy_event 0 ^^ 12) ceiling_100 = ceiling_100\<lparr>current_entropy := 108\<rparr>"
  by (simp add: numeral_eq_Suc entropy_event_0 bark_update_entropy_def ceiling_100_def
      bark_initial_def word_sless_alt)

lemma task_alloc_within_ceiling:
  assumes "bark_enforce k \<noteq> 0"
    and "\<not> bark_get_entropy_level k > bark_max_entropy k"
  shows "fst (bark_task_alloc_hook bt bf k task clone_flags) = 0
       \<or> fst (bark_task_alloc_hook bt bf k task clone_flags) = BARK_ERR_NOT_AUTHORIZED"
  using assms
  by (simp add: bark_task_alloc_hook_def bark_check_entropy_ceiling_def Let_def
      split: prod.splits)

text \<open>
  Claim C5, as stated: from counter 0 with ceiling 100, nine process-creation events give
  81 and the tenth pushes the counter over 100, so that the task creation is denied
  before any verification. The tenth event gives 90, which is not above 100: the task
  creation that follows is allowed (it returns 0), after one run of the verification.
\<close>

theorem tenth_event_counterexample:
  "bark_max_entropy ceiling_100 = 100 \<and> current_entropy ceiling_100 = 0
   \<and> bark_enforce ceiling_100 = 1
   \<and> current_entropy ((bark_entropy_event 0 ^^ 10) ceiling_100) = 90
   \<and> fst (bark_task_alloc_hook bark_task bark_file
            ((bark_entropy_event 0 ^^ 10) ceiling_100) (Some example_task) 0) = 0
   \<and> verify_runs (snd (bark_task_alloc_hook bark_task bark_file
            ((bark_entropy_event 0 ^^ 10) ceiling_100) (Some example_task) 0))
       = verify_runs ((bark_entropy_event 0 ^^ 10) ceiling_100) + 1"
  unfolding events_10
  by (simp add: bark_task_alloc_hook_def bark_check_entropy_ceiling_def
      bark_get_entropy_level_def bark_authorize_task_def verify_task_signature_stub
      get_task_exe_file_def example_task_def bark_log_authorization_def
      ceiling_100_def bark_initial_def zero_auth_result_def)

text \<open>
  Claim C5, amended: from counter 0 with ceiling 100, each process-creation event adds 9
  (10, less the decay of 1); nine events give exactly 81, ten give 90, eleven give 99, and
  the twelfth is the first to push the counter over 100, to 108. The task creation after
  the tenth event is not denied for entropy; after the twelfth it is denied with
  \<^verbatim>\<open>BARK_ERR_ENTROPY_EXCEEDED\<close> before signature verification executes (no verification
  run), for every task.
\<close>

theorem entropy_scenario:
  "current_entropy ((bark_entropy_event 0 ^^ 9) ceiling_100) = 81
   \<and> current_entropy ((bark_entropy_event 0 ^^ 10) ceiling_100) = 90
   \<and> current_entropy ((bark_entropy_event 0 ^^ 11) ceiling_100) = 99
   \<and> current_entropy ((bark_entropy_event 0 ^^ 12) ceiling_100) = 108
   \<and> fst (bark_task_alloc_hook bt bf ((bark_entropy_event 0 ^^ 10) ceiling_100) task clone_flags)
       \<noteq> BARK_ERR_ENTROPY_EXCEEDED
   \<and> fst (bark_task_alloc_hook bt bf ((bark_entropy_event 0 ^^ 12) ceiling_100) task clone_flags)
       = BARK_ERR_ENTROPY_EXCEEDED
   \<and> verify_runs (snd (bark_task_alloc_hook bt bf ((bark_entropy_event 0 ^^ 12) ceiling_100)
                          task clone_flags))
       = verify_runs ((bark_entropy_event 0 ^^ 12) ceiling_100)"
proof -
  let ?K10 = "ceiling_100\<lparr>current_entropy := 90\<rparr>"
  let ?K12 = "ceiling_100\<lparr>current_entropy := 108\<rparr>"
  have e: "bark_enforce ?K10 \<noteq> 0" "bark_enforce ?K12 \<noteq> 0"
    by (simp_all add: ceiling_100_def bark_initial_def)
  have lo: "\<not> bark_get_entropy_level ?K10 > bark_max_entropy ?K10"
    by (simp add: ceiling_100_def bark_get_entropy_level_def)
  have hi: "bark_get_entropy_level ?K12 > bark_max_entropy ?K12"
    by (simp add: ceiling_100_def bark_get_entropy_level_def)
  have a: "fst (bark_task_alloc_hook bt bf ?K10 task clone_flags) \<noteq> BARK_ERR_ENTROPY_EXCEEDED"
    using task_alloc_within_ceiling [OF e(1) lo, of bt bf task clone_flags] by auto
  have b: "fst (bark_task_alloc_hook bt bf ?K12 task clone_flags) = BARK_ERR_ENTROPY_EXCEEDED"
    "verify_runs (snd (bark_task_alloc_hook bt bf ?K12 task clone_flags)) = verify_runs ?K12"
    using e(2) hi
    by (simp_all add: bark_task_alloc_hook_def bark_check_entropy_ceiling_def Let_def
        bark_log_entropy_exceeded_def printk_def)
  show ?thesis
    using a b by (simp add: events_9 events_10 events_11 events_12)
qed

text \<open>
Claim C5, amended, at a task with an executable, under the accessors of the source.
\<close>

theorem entropy_scenario_witness:
  "current_entropy ((bark_entropy_event 0 ^^ 9) ceiling_100) = 81
   \<and> fst (bark_task_alloc_hook bark_task bark_file ((bark_entropy_event 0 ^^ 12) ceiling_100)
            (Some example_task) 0) = BARK_ERR_ENTROPY_EXCEEDED
   \<and> verify_runs (snd (bark_task_alloc_hook bark_task bark_file
            ((bark_entropy_event 0 ^^ 12) ceiling_100) (Some example_task) 0)) = 0"
proof -
  note t = entropy_scenario [of bark_task bark_file "Some example_task" 0]
  have "verify_runs ((bark_entropy_event 0 ^^ 12) ceiling_100) = 0"
    unfolding events_12 by (simp add: ceiling_100_def bark_initial_def)
  then show ?thesis using t by simp
qed

end
